theory Spec2Isabelle
  imports Main
begin

section \<open>Configuration loading\<close>

text \<open>
  The development follows \<^verbatim>\<open>group_songlink_bot/config.py\<close>: the class \<^verbatim>\<open>Config\<close>,
  its method \<^verbatim>\<open>init_logging\<close> and its class method \<^verbatim>\<open>load_config\<close>.
\<close>

subsection \<open>Python values, exceptions and the runtime\<close>

text \<open>
  The values an attribute of a \<^verbatim>\<open>Config\<close> instance can hold. The class body gives
  strings, one bool, the \<^verbatim>\<open>LOG_CONFIG\<close> dict, a log renderer and two functions;
  \<^verbatim>\<open>load_config\<close> only ever assigns strings. Of the \<^verbatim>\<open>LOG_CONFIG\<close> dict the code
  reads and writes one entry, \<^verbatim>\<open>['loggers']['group_songlink_bot']['level']\<close>, which is
  the string kept in \<open>PyLogConfig\<close>; the rest of the dict never changes.
\<close>

datatype pyval =
    PyStr string
  | PyBool bool
  | PyLogConfig string
  | JSONRenderer
  | ConsoleRenderer
  | PyFunction string
  | PyInherited

text \<open>
  Exceptions. \<open>Exception\<close> carries its message; \<open>BadDsn\<close> stands for whatever
  \<^verbatim>\<open>sentry_sdk.init\<close> raises.
\<close>

datatype error =
    Exception string
  | TypeError
  | ValueError
  | AttributeError
  | BadDsn

text \<open>
  What the source takes from outside the repository, as parameters:
  \<^item> \<open>object_attrs\<close>: the names \<^verbatim>\<open>hasattr\<close> finds on every instance because the class
    inherits them from \<^verbatim>\<open>object\<close> (\<^verbatim>\<open>__class__\<close>, \<^verbatim>\<open>__dict__\<close>, \<^verbatim>\<open>__doc__\<close>, ...);
  \<^item> \<open>setattr_raises\<close>: the exception \<^verbatim>\<open>setattr\<close> raises when a string is assigned to
    such a name on an instance (\<^verbatim>\<open>__class__\<close>, \<^verbatim>\<open>__dict__\<close>, \<^verbatim>\<open>__weakref__\<close>), if any;
  \<^item> \<open>sentry_sdk_init\<close>: the exception \<^verbatim>\<open>sentry_sdk.init(dsn=...)\<close> raises, if any.
\<close>

record runtime =
  object_attrs :: "string list"
  setattr_raises :: "string \<Rightarrow> error option"
  sentry_sdk_init :: "pyval \<Rightarrow> error option"

text \<open>CPython 3, with a Sentry client that accepts every DSN.\<close>

definition cpython :: runtime where
  "cpython = \<lparr>
     object_attrs =
       [''__class__'', ''__delattr__'', ''__dict__'', ''__dir__'', ''__doc__'', ''__eq__'',
        ''__format__'', ''__ge__'', ''__getattribute__'', ''__gt__'', ''__hash__'',
        ''__init__'', ''__init_subclass__'', ''__le__'', ''__lt__'', ''__module__'',
        ''__ne__'', ''__new__'', ''__reduce__'', ''__reduce_ex__'', ''__repr__'',
        ''__setattr__'', ''__sizeof__'', ''__str__'', ''__subclasshook__'', ''__weakref__''],
     setattr_raises =
       (\<lambda>name. if name = ''__class__'' \<or> name = ''__dict__'' then Some TypeError
                else if name = ''__weakref__'' then Some AttributeError
                else None),
     sentry_sdk_init = (\<lambda>dsn. None) \<rparr>"

text \<open>Truth value of a value, as \<^verbatim>\<open>if\<close> and \<^verbatim>\<open>not\<close> test it.\<close>

fun truthy :: "pyval \<Rightarrow> bool" where
  "truthy (PyStr s) = (s \<noteq> [])"
| "truthy (PyBool b) = b"
| "truthy (PyLogConfig l) = True"
| "truthy JSONRenderer = True"
| "truthy ConsoleRenderer = True"
| "truthy (PyFunction f) = True"
| "truthy PyInherited = True"

text \<open>\<^verbatim>\<open>s.startswith(p)\<close> and the slice \<^verbatim>\<open>s[len(p):]\<close>.\<close>

definition startswith :: "string \<Rightarrow> string \<Rightarrow> bool" where
  "startswith s p = (take (length p) s = p)"

definition slice_from :: "string \<Rightarrow> nat \<Rightarrow> string" where
  "slice_from s n = drop n s"

subsection \<open>The class Config\<close>

text \<open>
  A \<^verbatim>\<open>Config\<close> instance is what attribute lookup sees on it: a map from attribute
  names to values (the instance's own dict over the class body over \<^verbatim>\<open>object\<close>).
\<close>

type_synonym config = "string \<rightharpoonup> pyval"

text \<open>The attributes of the class body, lines 15 to 121.\<close>

definition Config_class :: "(string \<times> pyval) list" where
  "Config_class =
     [(''DEBUG'', PyBool False),
      (''BOT_API_TOKEN'', PyStr ''''),
      (''SONGLINK_API_URL'', PyStr ''https://api.song.link/v1-alpha.1/links''),
      (''SONGLINK_API_KEY'', PyStr ''''),
      (''SENTRY_DSN'', PyStr ''''),
      (''LOG_CONFIG'', PyLogConfig ''INFO''),
      (''LOG_RENDERER'', JSONRenderer),
      (''init_logging'', PyFunction ''init_logging''),
      (''load_config'', PyFunction ''load_config'')]"

text \<open>\<^verbatim>\<open>cls()\<close>: a fresh instance, every attribute at its default.\<close>

definition Config_new :: "runtime \<Rightarrow> config" where
  "Config_new rt =
     map_of (Config_class @ map (\<lambda>name. (name, PyInherited)) (object_attrs rt))"

definition hasattr :: "config \<Rightarrow> string \<Rightarrow> bool" where
  "hasattr obj name = (obj name \<noteq> None)"

definition setattr :: "runtime \<Rightarrow> config \<Rightarrow> string \<Rightarrow> pyval \<Rightarrow> error + config" where
  "setattr rt obj name v =
     (case setattr_raises rt name of
        Some e \<Rightarrow> Inl e
      | None \<Rightarrow> Inr (obj(name \<mapsto> v)))"

text \<open>
  \<^verbatim>\<open>init_logging\<close>, lines 66 to 90. \<^verbatim>\<open>logging.config.dictConfig\<close> accepts the dict of
  the class body and raises \<^verbatim>\<open>ValueError\<close> on a string; subscripting a string with
  \<^verbatim>\<open>'loggers'\<close> raises \<^verbatim>\<open>TypeError\<close>; \<^verbatim>\<open>structlog.configure_once\<close> returns. The
  \<^verbatim>\<open>LOG_CONFIG\<close> dict is the class's own object, so the write of line 69 outlives the
  instance; the model follows one call on a fresh class.
\<close>

definition dictConfig :: "pyval \<Rightarrow> error option" where
  "dictConfig v = (case v of PyLogConfig l \<Rightarrow> None | _ \<Rightarrow> Some ValueError)"

definition init_logging :: "config \<Rightarrow> error + config" where
  "init_logging self =
     (case self ''DEBUG'' of
        None \<Rightarrow> Inl AttributeError
      | Some debug \<Rightarrow>
          (case (if truthy debug then
                   (case self ''LOG_CONFIG'' of
                      None \<Rightarrow> Inl AttributeError
                    | Some (PyLogConfig l) \<Rightarrow>
                        (let self1 = self(''LOG_CONFIG'' \<mapsto> PyLogConfig ''DEBUG'') in
                         case self1 ''LOG_RENDERER'' of
                           None \<Rightarrow> Inl AttributeError
                         | Some r \<Rightarrow>
                             if r \<noteq> ConsoleRenderer
                             then Inr (self1(''LOG_RENDERER'' \<mapsto> ConsoleRenderer))
                             else Inr self1)
                    | Some _ \<Rightarrow> Inl TypeError)
                 else Inr self) of
             Inl e \<Rightarrow> Inl e
           | Inr self2 \<Rightarrow>
               (case self2 ''LOG_CONFIG'' of
                  None \<Rightarrow> Inl AttributeError
                | Some cfg \<Rightarrow>
                    (case dictConfig cfg of
                       Some e \<Rightarrow> Inl e
                     | None \<Rightarrow>
                         (case self2 ''LOG_RENDERER'' of
                            None \<Rightarrow> Inl AttributeError
                          | Some r \<Rightarrow> Inr self2)))))"

text \<open>
  The loop of lines 104 to 108 over \<^verbatim>\<open>os.environ.items()\<close>, the environment as
  \<^verbatim>\<open>dotenv.load_dotenv()\<close> leaves it: a list of (name, value) pairs in the dict's order.
\<close>

fun update_config :: "runtime \<Rightarrow> string \<Rightarrow> (string \<times> string) list \<Rightarrow> config \<Rightarrow> error + config" where
  "update_config rt env_prefix [] config = Inr config"
| "update_config rt env_prefix ((env_var_name, val) # rest) config =
     (if startswith env_var_name env_prefix then
        (let var_name = slice_from env_var_name (length env_prefix) in
         if hasattr config var_name then
           (case setattr rt config var_name (PyStr val) of
              Inl e \<Rightarrow> Inl e
            | Inr config' \<Rightarrow> update_config rt env_prefix rest config')
         else update_config rt env_prefix rest config)
      else update_config rt env_prefix rest config)"

definition missing_token_message :: "string \<Rightarrow> string" where
  "missing_token_message env_prefix =
     ''BOT_API_TOKEN is missing. Please, provide '' @ env_prefix @
     ''BOT_API_TOKEN either via environment variable or'' @ ''.env file.''"

text \<open>
  \<^verbatim>\<open>load_config\<close>, lines 92 to 121. Calling \<^verbatim>\<open>config.init_logging\<close> when the
  attribute holds a string raises \<^verbatim>\<open>TypeError\<close> (a \<^verbatim>\<open>str\<close> is not callable).
\<close>

definition load_config :: "runtime \<Rightarrow> (string \<times> string) list \<Rightarrow> string \<Rightarrow> error + config" where
  "load_config rt environ env_prefix =
     (case update_config rt env_prefix environ (Config_new rt) of
        Inl e \<Rightarrow> Inl e
      | Inr config \<Rightarrow>
          (case config ''BOT_API_TOKEN'' of
             None \<Rightarrow> Inl AttributeError
           | Some token \<Rightarrow>
               if \<not> truthy token then Inl (Exception (missing_token_message env_prefix))
               else
                 (case config ''SENTRY_DSN'' of
                    None \<Rightarrow> Inl AttributeError
                  | Some dsn \<Rightarrow>
                      (case (if truthy dsn then sentry_sdk_init rt dsn else None) of
                         Some e \<Rightarrow> Inl e
                       | None \<Rightarrow>
                           (case config ''init_logging'' of
                              None \<Rightarrow> Inl AttributeError
                            | Some (PyFunction f) \<Rightarrow> init_logging config
                            | Some _ \<Rightarrow> Inl TypeError)))))"

text \<open>The default of the parameter \<^verbatim>\<open>env_prefix\<close>, line 93.\<close>

definition default_env_prefix :: string where
  "default_env_prefix = ''GROUP_SONGLINK_BOT_''"

text \<open>
  What the merge is expected to leave in attribute \<open>a\<close>: the value of the variable
  named prefix plus \<open>a\<close> when there is one and \<open>a\<close> is an attribute of a fresh
  instance, the default of \<open>a\<close> otherwise.
\<close>

definition merged_attr :: "runtime \<Rightarrow> (string \<times> string) list \<Rightarrow> string \<Rightarrow> string \<Rightarrow> pyval option" where
  "merged_attr rt environ env_prefix a =
     (case map_of environ (env_prefix @ a) of
        Some v \<Rightarrow> if hasattr (Config_new rt) a then Some (PyStr v) else None
      | None \<Rightarrow> Config_new rt a)"


subsection \<open>Environments used as examples\<close>

text \<open>
  Four contents of \<^verbatim>\<open>os.environ\<close>: a token together with a variable named after the
  method \<^verbatim>\<open>init_logging\<close>; a token together with \<^verbatim>\<open>DEBUG\<close>; a token among
  variables that name no attribute; and a token together with a variable named after
  \<^verbatim>\<open>__class__\<close>, which refuses the assignment of a string.
\<close>

definition env_init_logging :: "(string \<times> string) list" where
  "env_init_logging =
     [(''GROUP_SONGLINK_BOT_BOT_API_TOKEN'', ''t''),
      (''GROUP_SONGLINK_BOT_init_logging'', ''x'')]"


definition env_plain :: "(string \<times> string) list" where
  "env_plain =
     [(''HOME'', ''/root''),
      (''GROUP_SONGLINK_BOT_BOT_API_TOKEN'', ''t''),
      (''GROUP_SONGLINK_BOT_PORT'', ''80'')]"

definition env_class :: "(string \<times> string) list" where
  "env_class =
     [(''GROUP_SONGLINK_BOT_BOT_API_TOKEN'', ''t''),
      (''GROUP_SONGLINK_BOT___class__'', ''x'')]"

section \<open>Properties of configuration loading\<close>

subsection \<open>The merge loop\<close>

lemma startswith_iff: "startswith s p \<longleftrightarrow> (\<exists>a. s = p @ a)"
  unfolding startswith_def
  by (metis append_eq_conv_conj append_take_drop_id)

lemma startswith_slice: "startswith s p \<Longrightarrow> p @ slice_from s (length p) = s"
  unfolding startswith_def slice_from_def
  by (metis append_take_drop_id)

lemma update_config_None:
  "update_config rt p env c = Inr c' \<Longrightarrow> (c' a = None) = (c a = None)"
proof (induction env arbitrary: c)
  case Nil
  then show ?case by simp
next
  case (Cons x env)
  obtain n v where x: "x = (n, v)" by (cases x)
  show ?case
  proof (cases "startswith n p \<and> hasattr c (slice_from n (length p))")
    case True
    with Cons.prems x obtain c1 where
      s: "setattr rt c (slice_from n (length p)) (PyStr v) = Inr c1"
      and u: "update_config rt p env c1 = Inr c'"
      by (auto simp: Let_def split: sum.splits)
    from s have c1: "c1 = c(slice_from n (length p) \<mapsto> PyStr v)"
      by (auto simp: setattr_def split: option.splits)
    from True have "c (slice_from n (length p)) \<noteq> None" by (simp add: hasattr_def)
    with c1 have "(c1 a = None) = (c a = None)" by auto
    with Cons.IH[OF u] show ?thesis by simp
  next
    case False
    with Cons.prems x have "update_config rt p env c = Inr c'"
      by (auto simp: Let_def split: if_splits)
    from Cons.IH[OF this] show ?thesis .
  qed
qed

lemma update_config_hasattr:
  "update_config rt p env c = Inr c' \<Longrightarrow> hasattr c' a = hasattr c a"
  by (simp add: hasattr_def update_config_None)

lemma update_config_value:
  assumes "distinct (map fst env)" and "update_config rt p env c = Inr c'"
  shows "c' a = (case map_of env (p @ a) of
                   Some v \<Rightarrow> if hasattr c a then Some (PyStr v) else None
                 | None \<Rightarrow> c a)"
  using assms
proof (induction env arbitrary: c)
  case Nil
  then show ?case by simp
next
  case (Cons x env)
  obtain n v where x: "x = (n, v)" by (cases x)
  from Cons.prems(1) x have d: "distinct (map fst env)" and nin: "map_of env n = None"
    by (auto simp: map_of_eq_None_iff)
  show ?case
  proof (cases "startswith n p")
    case sw: True
    let ?var = "slice_from n (length p)"
    have n: "n = p @ ?var" using startswith_slice[OF sw] by simp
    show ?thesis
    proof (cases "hasattr c ?var")
      case True
      with Cons.prems(2) x sw obtain c1 where
        s: "setattr rt c ?var (PyStr v) = Inr c1"
        and u: "update_config rt p env c1 = Inr c'"
        by (auto simp: Let_def split: sum.splits)
      from s have c1: "c1 = c(?var \<mapsto> PyStr v)"
        by (auto simp: setattr_def split: option.splits)
      note IH = Cons.IH[OF d u]
      show ?thesis
      proof (cases "a = ?var")
        case a: True
        then have "p @ a = n" using n by simp
        with IH nin c1 a True x show ?thesis by (simp add: hasattr_def split: option.splits)
      next
        case a: False
        then have "p @ a \<noteq> n" using n by (metis same_append_eq)
        with IH c1 a x show ?thesis by (simp add: hasattr_def split: option.splits)
      qed
    next
      case False
      with Cons.prems(2) x sw have u: "update_config rt p env c = Inr c'"
        by (auto simp: Let_def)
      note IH = Cons.IH[OF d u]
      show ?thesis
      proof (cases "a = ?var")
        case a: True
        then have "p @ a = n" using n by simp
        with IH nin a False x show ?thesis by (simp add: hasattr_def split: option.splits)
      next
        case a: False
        then have "p @ a \<noteq> n" using n by (metis same_append_eq)
        with IH x show ?thesis by simp
      qed
    qed
  next
    case False
    then have "p @ a \<noteq> n" by (auto simp: startswith_iff)
    moreover from False Cons.prems(2) x have "update_config rt p env c = Inr c'" by simp
    ultimately show ?thesis using Cons.IH[OF d, of c] x by simp
  qed
qed

lemma Config_new_class [simp]:
  "Config_new rt ''DEBUG'' = Some (PyBool False)"
  "Config_new rt ''BOT_API_TOKEN'' = Some (PyStr '''')"
  "Config_new rt ''SENTRY_DSN'' = Some (PyStr '''')"
  "Config_new rt ''LOG_CONFIG'' = Some (PyLogConfig ''INFO'')"
  "Config_new rt ''LOG_RENDERER'' = Some JSONRenderer"
  "Config_new rt ''init_logging'' = Some (PyFunction ''init_logging'')"
  by (simp_all add: Config_new_def Config_class_def)

lemma merged_attr_class:
  "merged_attr rt env p ''DEBUG'' = (case map_of env (p @ ''DEBUG'') of Some v \<Rightarrow> Some (PyStr v) | None \<Rightarrow> Some (PyBool False))"
  "merged_attr rt env p ''BOT_API_TOKEN'' = (case map_of env (p @ ''BOT_API_TOKEN'') of Some v \<Rightarrow> Some (PyStr v) | None \<Rightarrow> Some (PyStr ''''))"
  "merged_attr rt env p ''SENTRY_DSN'' = (case map_of env (p @ ''SENTRY_DSN'') of Some v \<Rightarrow> Some (PyStr v) | None \<Rightarrow> Some (PyStr ''''))"
  "merged_attr rt env p ''LOG_CONFIG'' = (case map_of env (p @ ''LOG_CONFIG'') of Some v \<Rightarrow> Some (PyStr v) | None \<Rightarrow> Some (PyLogConfig ''INFO''))"
  "merged_attr rt env p ''LOG_RENDERER'' = (case map_of env (p @ ''LOG_RENDERER'') of Some v \<Rightarrow> Some (PyStr v) | None \<Rightarrow> Some JSONRenderer)"
  "merged_attr rt env p ''init_logging'' = (case map_of env (p @ ''init_logging'') of Some v \<Rightarrow> Some (PyStr v) | None \<Rightarrow> Some (PyFunction ''init_logging''))"
  by (simp_all add: merged_attr_def hasattr_def split: option.splits)

lemma update_config_merged:
  assumes "distinct (map fst env)" and "update_config rt p env (Config_new rt) = Inr cfg"
  shows "cfg a = merged_attr rt env p a"
  using update_config_value[OF assms, of a]
  by (auto simp: merged_attr_def hasattr_def split: option.splits)

text \<open>
  When the merge loop completes, in terms of the environment: no variable that the
  loop copies names an attribute whose assignment raises.
\<close>

lemma update_config_completes_from:
  "(\<exists>c'. update_config rt p env c = Inr c') \<longleftrightarrow>
   (\<forall>(n, v) \<in> set env. startswith n p \<and> hasattr c (slice_from n (length p)) \<longrightarrow>
        setattr_raises rt (slice_from n (length p)) = None)"
proof (induction env arbitrary: c)
  case Nil
  show ?case by simp
next
  case (Cons x env)
  obtain n v where x: "x = (n, v)" by (cases x)
  let ?var = "slice_from n (length p)"
  show ?case
  proof (cases "startswith n p \<and> hasattr c ?var")
    case copy: True
    show ?thesis
    proof (cases "setattr_raises rt ?var")
      case None
      define c1 where "c1 = c(?var \<mapsto> PyStr v)"
      from copy have "c ?var \<noteq> None" by (simp add: hasattr_def)
      then have same: "\<And>a. hasattr c1 a = hasattr c a" by (auto simp: hasattr_def c1_def)
      from copy None x have step: "update_config rt p (x # env) c = update_config rt p env c1"
        by (simp add: setattr_def c1_def)
      have "(\<exists>c'. update_config rt p env c1 = Inr c') \<longleftrightarrow>
            (\<forall>(n, v) \<in> set env. startswith n p \<and> hasattr c (slice_from n (length p)) \<longrightarrow>
                setattr_raises rt (slice_from n (length p)) = None)"
        using Cons.IH[of c1] by (simp only: same)
      with step copy None x show ?thesis by simp
    next
      case (Some e)
      with copy x have "update_config rt p (x # env) c = Inl e"
        by (simp add: setattr_def)
      with copy Some x show ?thesis by auto
    qed
  next
    case False
    with x have "update_config rt p (x # env) c = update_config rt p env c"
      by auto
    with Cons.IH[of c] False x show ?thesis by auto
  qed
qed

lemma map_of_prefixed:
  assumes "distinct (map fst env)"
  shows "(\<forall>(n, v) \<in> set env. startswith n p \<and> hasattr c (slice_from n (length p)) \<longrightarrow>
            setattr_raises rt (slice_from n (length p)) = None) \<longleftrightarrow>
         (\<forall>a v. map_of env (p @ a) = Some v \<and> hasattr c a \<longrightarrow> setattr_raises rt a = None)"
  (is "?L \<longleftrightarrow> ?R")
proof
  assume l: ?L
  show ?R
  proof (intro allI impI)
    fix a v assume a: "map_of env (p @ a) = Some v \<and> hasattr c a"
    then have "(p @ a, v) \<in> set env" by (simp add: map_of_SomeD)
    moreover have "startswith (p @ a) p" "slice_from (p @ a) (length p) = a"
      by (simp_all add: startswith_def slice_from_def)
    ultimately show "setattr_raises rt a = None" using l a by fastforce
  qed
next
  assume r: ?R
  show ?L
  proof (clarify)
    fix n v assume nv: "(n, v) \<in> set env" and s: "startswith n p"
      and h: "hasattr c (slice_from n (length p))"
    from startswith_slice[OF s] have n: "n = p @ slice_from n (length p)" by simp
    from assms nv have "map_of env n = Some v" by simp
    with n have "map_of env (p @ slice_from n (length p)) = Some v" by simp
    with r h show "setattr_raises rt (slice_from n (length p)) = None" by blast
  qed
qed

lemma update_config_completes:
  assumes "distinct (map fst env)"
  shows "(\<exists>cfg. update_config rt p env (Config_new rt) = Inr cfg) \<longleftrightarrow>
         (\<forall>a v. map_of env (p @ a) = Some v \<and> hasattr (Config_new rt) a \<longrightarrow>
                setattr_raises rt a = None)"
  using update_config_completes_from[of rt p env "Config_new rt"] map_of_prefixed[OF assms]
  by simp

subsection \<open>Logging set-up and the whole of the loader\<close>

lemma init_logging_Inr:
  assumes "init_logging self = Inr c"
  shows "\<exists>d l. self ''DEBUG'' = Some d \<and> self ''LOG_CONFIG'' = Some (PyLogConfig l) \<and>
           c = (if truthy d
                then self(''LOG_CONFIG'' \<mapsto> PyLogConfig ''DEBUG'', ''LOG_RENDERER'' \<mapsto> ConsoleRenderer)
                else self)"
  using assms
  by (auto simp: init_logging_def dictConfig_def Let_def fun_upd_idem
      split: option.splits if_splits pyval.splits sum.splits)

lemma init_logging_returns:
  assumes "self ''DEBUG'' = Some d" "self ''LOG_CONFIG'' = Some (PyLogConfig l)"
    "self ''LOG_RENDERER'' = Some r"
  shows "\<exists>c. init_logging self = Inr c"
  using assms
  by (auto simp: init_logging_def dictConfig_def Let_def)

lemma load_config_Inr:
  assumes "load_config rt env p = Inr c"
  shows "\<exists>cfg tok dsn f. update_config rt p env (Config_new rt) = Inr cfg \<and>
           cfg ''BOT_API_TOKEN'' = Some tok \<and> truthy tok \<and>
           cfg ''SENTRY_DSN'' = Some dsn \<and> (truthy dsn \<longrightarrow> sentry_sdk_init rt dsn = None) \<and>
           cfg ''init_logging'' = Some (PyFunction f) \<and> init_logging cfg = Inr c"
  using assms
  by (auto simp: load_config_def split: sum.splits option.splits if_splits pyval.splits)

lemma load_config_from_merge:
  assumes "update_config rt p env (Config_new rt) = Inr cfg"
    and "cfg ''BOT_API_TOKEN'' = Some tok" "truthy tok"
    and "cfg ''SENTRY_DSN'' = Some dsn" "truthy dsn \<longrightarrow> sentry_sdk_init rt dsn = None"
    and "cfg ''init_logging'' = Some (PyFunction f)"
  shows "load_config rt env p = init_logging cfg"
  using assms by (auto simp: load_config_def)

lemma load_config_missing_token:
  assumes "update_config rt p env (Config_new rt) = Inr cfg"
    and "cfg ''BOT_API_TOKEN'' = Some tok" "\<not> truthy tok"
  shows "load_config rt env p = Inl (Exception (missing_token_message p))"
  using assms by (simp add: load_config_def)

lemma load_config_returns_merge:
  assumes "distinct (map fst environ)"
  shows "((\<exists>c. load_config rt environ env_prefix = Inr c) \<longleftrightarrow>
            (\<exists>cfg. update_config rt env_prefix environ (Config_new rt) = Inr cfg) \<and>
            (\<exists>v. map_of environ (env_prefix @ ''BOT_API_TOKEN'') = Some v \<and> v \<noteq> []) \<and>
            (\<forall>v. map_of environ (env_prefix @ ''SENTRY_DSN'') = Some v \<and> v \<noteq> [] \<longrightarrow>
                 sentry_sdk_init rt (PyStr v) = None) \<and>
            map_of environ (env_prefix @ ''init_logging'') = None \<and>
            map_of environ (env_prefix @ ''LOG_CONFIG'') = None)
       \<and> ((\<exists>cfg. update_config rt env_prefix environ (Config_new rt) = Inr cfg) \<and>
            \<not> (\<exists>v. map_of environ (env_prefix @ ''BOT_API_TOKEN'') = Some v \<and> v \<noteq> []) \<longrightarrow>
            load_config rt environ env_prefix = Inl (Exception (missing_token_message env_prefix)))
       \<and> (\<forall>c. load_config rt environ env_prefix = Inr c \<longrightarrow>
              (\<exists>v. c ''BOT_API_TOKEN'' = Some (PyStr v) \<and> v \<noteq> []))"
proof (intro conjI)
  let ?P = "\<lambda>a. map_of environ (env_prefix @ a)"
  note m = update_config_merged[OF assms]
  show "(\<exists>c. load_config rt environ env_prefix = Inr c) \<longleftrightarrow>
            (\<exists>cfg. update_config rt env_prefix environ (Config_new rt) = Inr cfg) \<and>
            (\<exists>v. ?P ''BOT_API_TOKEN'' = Some v \<and> v \<noteq> []) \<and>
            (\<forall>v. ?P ''SENTRY_DSN'' = Some v \<and> v \<noteq> [] \<longrightarrow> sentry_sdk_init rt (PyStr v) = None) \<and>
            ?P ''init_logging'' = None \<and> ?P ''LOG_CONFIG'' = None"
    (is "?L \<longleftrightarrow> ?R")
  proof
    assume ?L
    then obtain c where c: "load_config rt environ env_prefix = Inr c" ..
    from load_config_Inr[OF c] obtain cfg tok dsn f where
      u: "update_config rt env_prefix environ (Config_new rt) = Inr cfg"
      and t: "cfg ''BOT_API_TOKEN'' = Some tok" "truthy tok"
      and s: "cfg ''SENTRY_DSN'' = Some dsn" "truthy dsn \<longrightarrow> sentry_sdk_init rt dsn = None"
      and i: "cfg ''init_logging'' = Some (PyFunction f)" and il: "init_logging cfg = Inr c"
      by blast
    from init_logging_Inr[OF il] obtain l where l: "cfg ''LOG_CONFIG'' = Some (PyLogConfig l)"
      by blast
    have 1: "\<exists>v. ?P ''BOT_API_TOKEN'' = Some v \<and> v \<noteq> []"
      using t m[OF u, of "''BOT_API_TOKEN''"]
      by (auto simp: merged_attr_class split: option.splits)
    have 2: "\<forall>v. ?P ''SENTRY_DSN'' = Some v \<and> v \<noteq> [] \<longrightarrow> sentry_sdk_init rt (PyStr v) = None"
      using s m[OF u, of "''SENTRY_DSN''"]
      by (auto simp: merged_attr_class split: option.splits)
    have 3: "?P ''init_logging'' = None"
      using i m[OF u, of "''init_logging''"]
      by (auto simp: merged_attr_class split: option.splits)
    have 4: "?P ''LOG_CONFIG'' = None"
      using l m[OF u, of "''LOG_CONFIG''"]
      by (auto simp: merged_attr_class split: option.splits)
    from u 1 2 3 4 show ?R by blast
  next
    assume r: ?R
    then obtain cfg v where
      u: "update_config rt env_prefix environ (Config_new rt) = Inr cfg"
      and v: "?P ''BOT_API_TOKEN'' = Some v" "v \<noteq> []"
      by blast
    have t: "cfg ''BOT_API_TOKEN'' = Some (PyStr v)" "truthy (PyStr v)"
      using v m[OF u, of "''BOT_API_TOKEN''"] by (simp_all add: merged_attr_class)
    obtain dsn where s: "cfg ''SENTRY_DSN'' = Some dsn" "truthy dsn \<longrightarrow> sentry_sdk_init rt dsn = None"
      using r m[OF u, of "''SENTRY_DSN''"]
      by (cases "?P ''SENTRY_DSN''") (auto simp: merged_attr_class)
    have i: "cfg ''init_logging'' = Some (PyFunction ''init_logging'')"
      using r m[OF u, of "''init_logging''"] by (simp add: merged_attr_class)
    have l: "cfg ''LOG_CONFIG'' = Some (PyLogConfig ''INFO'')"
      using r m[OF u, of "''LOG_CONFIG''"] by (simp add: merged_attr_class)
    obtain d where d: "cfg ''DEBUG'' = Some d"
      using m[OF u, of "''DEBUG''"] by (auto simp: merged_attr_class split: option.splits)
    obtain rr where rr: "cfg ''LOG_RENDERER'' = Some rr"
      using m[OF u, of "''LOG_RENDERER''"] by (auto simp: merged_attr_class split: option.splits)
    from init_logging_returns[OF d l rr] obtain c where "init_logging cfg = Inr c" ..
    with load_config_from_merge[OF u t s i] show ?L by simp
  qed
next
  show "(\<exists>cfg. update_config rt env_prefix environ (Config_new rt) = Inr cfg) \<and>
            \<not> (\<exists>v. map_of environ (env_prefix @ ''BOT_API_TOKEN'') = Some v \<and> v \<noteq> []) \<longrightarrow>
            load_config rt environ env_prefix = Inl (Exception (missing_token_message env_prefix))"
  proof
    assume a: "(\<exists>cfg. update_config rt env_prefix environ (Config_new rt) = Inr cfg) \<and>
            \<not> (\<exists>v. map_of environ (env_prefix @ ''BOT_API_TOKEN'') = Some v \<and> v \<noteq> [])"
    then obtain cfg where u: "update_config rt env_prefix environ (Config_new rt) = Inr cfg"
      by blast
    have "\<exists>tok. cfg ''BOT_API_TOKEN'' = Some tok \<and> \<not> truthy tok"
      using a update_config_merged[OF assms u, of "''BOT_API_TOKEN''"]
      by (auto simp: merged_attr_class split: option.splits)
    then obtain tok where "cfg ''BOT_API_TOKEN'' = Some tok" "\<not> truthy tok" by blast
    from load_config_missing_token[OF u this] show
      "load_config rt environ env_prefix = Inl (Exception (missing_token_message env_prefix))" .
  qed
next
  show "\<forall>c. load_config rt environ env_prefix = Inr c \<longrightarrow>
              (\<exists>v. c ''BOT_API_TOKEN'' = Some (PyStr v) \<and> v \<noteq> [])"
  proof (intro allI impI)
    fix c assume c: "load_config rt environ env_prefix = Inr c"
    from load_config_Inr[OF c] obtain cfg tok where
      u: "update_config rt env_prefix environ (Config_new rt) = Inr cfg"
      and t: "cfg ''BOT_API_TOKEN'' = Some tok" "truthy tok"
      and il: "init_logging cfg = Inr c"
      by blast
    from init_logging_Inr[OF il] obtain d where
      cc: "c = (if truthy d
                then cfg(''LOG_CONFIG'' \<mapsto> PyLogConfig ''DEBUG'', ''LOG_RENDERER'' \<mapsto> ConsoleRenderer)
                else cfg)"
      by blast
    have same: "c ''BOT_API_TOKEN'' = cfg ''BOT_API_TOKEN''"
      by (cases "truthy d") (simp_all add: cc)
    have mt: "merged_attr rt environ env_prefix ''BOT_API_TOKEN'' = Some tok"
      using t(1) update_config_merged[OF assms u, of "''BOT_API_TOKEN''"] by simp
    have "\<exists>v. tok = PyStr v \<and> v \<noteq> []"
    proof (cases "map_of environ (env_prefix @ ''BOT_API_TOKEN'')")
      case None
      with mt have "tok = PyStr ''''" by (simp add: merged_attr_class)
      with t(2) show ?thesis by simp
    next
      case (Some w)
      with mt have "tok = PyStr w" by (simp add: merged_attr_class)
      with t(2) show ?thesis by simp
    qed
    then obtain v where v: "tok = PyStr v" "v \<noteq> []" by blast
    have "c ''BOT_API_TOKEN'' = Some (PyStr v)"
      by (simp only: same t(1) v(1))
    with v(2) show "\<exists>v. c ''BOT_API_TOKEN'' = Some (PyStr v) \<and> v \<noteq> []" by blast
  qed
qed

text \<open>
  Claim C8, as the code has it. For an environment with distinct names (it is a dict):
  \<^verbatim>\<open>load_config\<close> returns a config object exactly when
  \<^item> no prefixed variable names an existing attribute whose assignment raises,
  \<^item> the prefixed \<^verbatim>\<open>BOT_API_TOKEN\<close> variable is set to a non-empty value,
  \<^item> Sentry accepts the DSN if the prefixed \<^verbatim>\<open>SENTRY_DSN\<close> variable is non-empty, and
  \<^item> no prefixed variable overwrites \<^verbatim>\<open>init_logging\<close> or \<^verbatim>\<open>LOG_CONFIG\<close>.
  When the token variable is missing or empty no config is produced: an exception is
  raised, and it is the missing-token exception unless an assignment of the merge
  raised first. Whenever a config is returned, its token is a non-empty string.
\<close>

theorem C8_load_config_returns:
  assumes "distinct (map fst environ)"
  shows "((\<exists>c. load_config rt environ env_prefix = Inr c) \<longleftrightarrow>
            (\<forall>a v. map_of environ (env_prefix @ a) = Some v \<and> hasattr (Config_new rt) a \<longrightarrow>
                   setattr_raises rt a = None) \<and>
            (\<exists>v. map_of environ (env_prefix @ ''BOT_API_TOKEN'') = Some v \<and> v \<noteq> []) \<and>
            (\<forall>v. map_of environ (env_prefix @ ''SENTRY_DSN'') = Some v \<and> v \<noteq> [] \<longrightarrow>
                 sentry_sdk_init rt (PyStr v) = None) \<and>
            map_of environ (env_prefix @ ''init_logging'') = None \<and>
            map_of environ (env_prefix @ ''LOG_CONFIG'') = None)
       \<and> ((\<forall>a v. map_of environ (env_prefix @ a) = Some v \<and> hasattr (Config_new rt) a \<longrightarrow>
                   setattr_raises rt a = None) \<and>
            \<not> (\<exists>v. map_of environ (env_prefix @ ''BOT_API_TOKEN'') = Some v \<and> v \<noteq> []) \<longrightarrow>
            load_config rt environ env_prefix = Inl (Exception (missing_token_message env_prefix)))
       \<and> (\<not> (\<exists>v. map_of environ (env_prefix @ ''BOT_API_TOKEN'') = Some v \<and> v \<noteq> []) \<longrightarrow>
            (\<exists>e. load_config rt environ env_prefix = Inl e))
       \<and> (\<forall>c. load_config rt environ env_prefix = Inr c \<longrightarrow>
              (\<exists>v. c ''BOT_API_TOKEN'' = Some (PyStr v) \<and> v \<noteq> []))"
proof -
  note old = load_config_returns_merge[OF assms, of rt env_prefix]
  note mc = update_config_completes[OF assms, of rt env_prefix]
  from old have 1: "(\<exists>c. load_config rt environ env_prefix = Inr c) \<longleftrightarrow>
            (\<exists>cfg. update_config rt env_prefix environ (Config_new rt) = Inr cfg) \<and>
            (\<exists>v. map_of environ (env_prefix @ ''BOT_API_TOKEN'') = Some v \<and> v \<noteq> []) \<and>
            (\<forall>v. map_of environ (env_prefix @ ''SENTRY_DSN'') = Some v \<and> v \<noteq> [] \<longrightarrow>
                 sentry_sdk_init rt (PyStr v) = None) \<and>
            map_of environ (env_prefix @ ''init_logging'') = None \<and>
            map_of environ (env_prefix @ ''LOG_CONFIG'') = None"
    by (rule conjunct1)
  from old have 2: "(\<exists>cfg. update_config rt env_prefix environ (Config_new rt) = Inr cfg) \<and>
            \<not> (\<exists>v. map_of environ (env_prefix @ ''BOT_API_TOKEN'') = Some v \<and> v \<noteq> []) \<longrightarrow>
            load_config rt environ env_prefix = Inl (Exception (missing_token_message env_prefix))"
    by (rule conjunct1[OF conjunct2])
  from old have 3: "\<forall>c. load_config rt environ env_prefix = Inr c \<longrightarrow>
              (\<exists>v. c ''BOT_API_TOKEN'' = Some (PyStr v) \<and> v \<noteq> [])"
    by (rule conjunct2[OF conjunct2])
  have 4: "\<not> (\<exists>v. map_of environ (env_prefix @ ''BOT_API_TOKEN'') = Some v \<and> v \<noteq> []) \<longrightarrow>
            (\<exists>e. load_config rt environ env_prefix = Inl e)"
  proof
    assume n: "\<not> (\<exists>v. map_of environ (env_prefix @ ''BOT_API_TOKEN'') = Some v \<and> v \<noteq> [])"
    with 1 have "\<not> (\<exists>c. load_config rt environ env_prefix = Inr c)" by blast
    then show "\<exists>e. load_config rt environ env_prefix = Inl e"
      by (cases "load_config rt environ env_prefix") auto
  qed
  have i1: "(\<exists>c. load_config rt environ env_prefix = Inr c) \<longleftrightarrow>
            (\<forall>a v. map_of environ (env_prefix @ a) = Some v \<and> hasattr (Config_new rt) a \<longrightarrow>
                   setattr_raises rt a = None) \<and>
            (\<exists>v. map_of environ (env_prefix @ ''BOT_API_TOKEN'') = Some v \<and> v \<noteq> []) \<and>
            (\<forall>v. map_of environ (env_prefix @ ''SENTRY_DSN'') = Some v \<and> v \<noteq> [] \<longrightarrow>
                 sentry_sdk_init rt (PyStr v) = None) \<and>
            map_of environ (env_prefix @ ''init_logging'') = None \<and>
            map_of environ (env_prefix @ ''LOG_CONFIG'') = None"
    unfolding mc[symmetric] by (rule 1)
  have i2: "(\<forall>a v. map_of environ (env_prefix @ a) = Some v \<and> hasattr (Config_new rt) a \<longrightarrow>
                   setattr_raises rt a = None) \<and>
            \<not> (\<exists>v. map_of environ (env_prefix @ ''BOT_API_TOKEN'') = Some v \<and> v \<noteq> []) \<longrightarrow>
            load_config rt environ env_prefix = Inl (Exception (missing_token_message env_prefix))"
    unfolding mc[symmetric] by (rule 2)
  from i1 i2 4 3 show ?thesis by (intro conjI)
qed


lemma cpython_simps [simp]:
  "setattr_raises cpython ''BOT_API_TOKEN'' = None"
  "setattr_raises cpython ''init_logging'' = None"
  "setattr_raises cpython ''DEBUG'' = None"
  "sentry_sdk_init cpython d = None"
  by (simp_all add: cpython_def)

lemma Config_new_PORT [simp]: "Config_new cpython ''PORT'' = None"
  by (simp add: Config_new_def Config_class_def cpython_def)

lemma merge_env_init_logging:
  "update_config cpython default_env_prefix env_init_logging (Config_new cpython)
   = Inr ((Config_new cpython)(''BOT_API_TOKEN'' \<mapsto> PyStr ''t'', ''init_logging'' \<mapsto> PyStr ''x''))"
  by (simp add: env_init_logging_def default_env_prefix_def startswith_def slice_from_def
      hasattr_def setattr_def)

text \<open>
  Claim C8 as stated fails: with \<^verbatim>\<open>GROUP_SONGLINK_BOT_BOT_API_TOKEN=t\<close> and
  \<^verbatim>\<open>GROUP_SONGLINK_BOT_init_logging=x\<close> the token is non-empty after the merge, and
  \<^verbatim>\<open>load_config\<close> raises \<^verbatim>\<open>TypeError\<close> at \<^verbatim>\<open>config.init_logging()\<close>.
\<close>

theorem C8_token_set_yet_raises:
  "(\<exists>cfg. update_config cpython default_env_prefix env_init_logging (Config_new cpython) = Inr cfg \<and>
          cfg ''BOT_API_TOKEN'' = Some (PyStr ''t''))
   \<and> load_config cpython env_init_logging default_env_prefix = Inl TypeError"
  by (simp add: load_config_def merge_env_init_logging)



lemma merge_env_plain:
  "update_config cpython default_env_prefix env_plain (Config_new cpython)
   = Inr ((Config_new cpython)(''BOT_API_TOKEN'' \<mapsto> PyStr ''t''))"
  by (simp add: env_plain_def default_env_prefix_def startswith_def slice_from_def
      hasattr_def setattr_def)

lemma load_env_plain: "\<exists>c. load_config cpython env_plain default_env_prefix = Inr c"
  by (simp add: load_config_def merge_env_plain init_logging_def dictConfig_def)

lemma prefixed_env_plain:
  "map_of env_plain (default_env_prefix @ a) = Some v \<Longrightarrow> a = ''BOT_API_TOKEN'' \<or> a = ''PORT''"
  by (auto simp: env_plain_def default_env_prefix_def split: if_splits)

lemma hasattr_class_attr: "hasattr (Config_new cpython) ''__class__''"
  by (simp add: hasattr_def Config_new_def Config_class_def cpython_def)

text \<open>
  Claim C8 at three environments: one where \<^verbatim>\<open>load_config\<close> returns, the empty
  one, where it raises the missing-token exception, and one with a token where the
  merge raises on \<^verbatim>\<open>__class__\<close>.
\<close>

theorem C8_load_config_returns_witness:
  "distinct (map fst env_plain) \<and>
   (\<exists>c. load_config cpython env_plain default_env_prefix = Inr c) \<and>
   distinct (map fst ([] :: (string \<times> string) list)) \<and>
   load_config cpython [] default_env_prefix =
     Inl (Exception (missing_token_message default_env_prefix)) \<and>
   distinct (map fst env_class) \<and>
   (\<exists>v. map_of env_class (default_env_prefix @ ''BOT_API_TOKEN'') = Some v \<and> v \<noteq> []) \<and>
   \<not> (\<exists>c. load_config cpython env_class default_env_prefix = Inr c)"
proof -
  have d: "distinct (map fst env_plain)" by (simp add: env_plain_def)
  have s: "\<forall>a v. map_of env_plain (default_env_prefix @ a) = Some v \<and>
                 hasattr (Config_new cpython) a \<longrightarrow> setattr_raises cpython a = None"
    using prefixed_env_plain by (auto simp: cpython_def)
  have t: "\<exists>v. map_of env_plain (default_env_prefix @ ''BOT_API_TOKEN'') = Some v \<and> v \<noteq> []"
    by (simp add: env_plain_def default_env_prefix_def)
  have y: "\<forall>v. map_of env_plain (default_env_prefix @ ''SENTRY_DSN'') = Some v \<and> v \<noteq> [] \<longrightarrow>
               sentry_sdk_init cpython (PyStr v) = None"
    by simp
  have i: "map_of env_plain (default_env_prefix @ ''init_logging'') = None"
    by (simp add: env_plain_def default_env_prefix_def)
  have l: "map_of env_plain (default_env_prefix @ ''LOG_CONFIG'') = None"
    by (simp add: env_plain_def default_env_prefix_def)
  from C8_load_config_returns[OF d, of cpython default_env_prefix] s t y i l
  have r: "\<exists>c. load_config cpython env_plain default_env_prefix = Inr c" by blast
  have e: "distinct (map fst ([] :: (string \<times> string) list))" by simp
  have s0: "\<forall>a v. map_of ([] :: (string \<times> string) list) (default_env_prefix @ a) = Some v \<and>
                 hasattr (Config_new cpython) a \<longrightarrow> setattr_raises cpython a = None"
    by simp
  have n: "\<not> (\<exists>v. map_of ([] :: (string \<times> string) list) (default_env_prefix @ ''BOT_API_TOKEN'') = Some v \<and> v \<noteq> [])"
    by simp
  from C8_load_config_returns[OF e, of cpython default_env_prefix] s0 n
  have x: "load_config cpython [] default_env_prefix =
     Inl (Exception (missing_token_message default_env_prefix))" by blast
  have dc: "distinct (map fst env_class)" by (simp add: env_class_def)
  have tc: "\<exists>v. map_of env_class (default_env_prefix @ ''BOT_API_TOKEN'') = Some v \<and> v \<noteq> []"
    by (simp add: env_class_def default_env_prefix_def)
  have mc: "map_of env_class (default_env_prefix @ ''__class__'') = Some ''x''"
    by (simp add: env_class_def default_env_prefix_def)
  have rc: "setattr_raises cpython ''__class__'' \<noteq> None" by (simp add: cpython_def)
  have "\<not> (\<forall>a v. map_of env_class (default_env_prefix @ a) = Some v \<and>
                 hasattr (Config_new cpython) a \<longrightarrow> setattr_raises cpython a = None)"
  proof
    assume a: "\<forall>a v. map_of env_class (default_env_prefix @ a) = Some v \<and>
                 hasattr (Config_new cpython) a \<longrightarrow> setattr_raises cpython a = None"
    from a[rule_format, of "''__class__''" "''x''"] mc hasattr_class_attr rc
    show False by simp
  qed
  with C8_load_config_returns[OF dc, of cpython default_env_prefix]
  have nc: "\<not> (\<exists>c. load_config cpython env_class default_env_prefix = Inr c)" by blast
  from d r e x dc tc nc show ?thesis by blast
qed


end
